theory Spec2Isabelle
  imports Complex_Main "HOL-Library.Word" "HOL-Library.Sublist"
begin

section \<open>Data model of the detection server (app.py)\<close>

text \<open>
  Python strings are modelled as \<open>string\<close>, holding the UTF-8 bytes of the text; the
  few non-ASCII characters of the source's literals are written out as their bytes.
  A Python float is modelled by the exact value of a finite float, a real number: the detector
  reports confidences in [0,1] and pixel coordinates, so NaN and the infinities are not
  part of the data model.
\<close>

type_synonym byte = "8 word"

datatype image = Image (pixels: "byte list")

text \<open>One row of the DataFrame \<open>results.pandas().xyxy[0]\<close>.\<close>

record detection =
  name :: string
  confidence :: real
  xmin :: real
  ymin :: real
  xmax :: real
  ymax :: real

text \<open>A caught Python \<open>Exception\<close>, carrying \<open>str(e)\<close>.\<close>

datatype exn = Exn string

text \<open>The arguments of the one outbound call \<open>requests.post(url, data=data, files=files)\<close>.\<close>

record post_request =
  url :: string
  chat_id :: string
  caption :: string
  parse_mode :: string
  photo_name :: string
  photo :: "byte list"

text \<open>
  Everything the server takes from outside its own source: the two configuration strings,
  the global model handle (\<open>None\<close> when \<open>load_model\<close> failed), and the library calls.
  A library call that can raise returns a sum, \<open>Inl\<close> being the exception.
  \<open>cv2_imdecode\<close> returns \<open>Inr None\<close> where OpenCV returns \<open>None\<close>;
  \<open>cv2_imencode\<close> returns the pair \<open>(is_success, buffer)\<close>;
  \<open>requests_post\<close> returns \<open>(status_code, text)\<close>.
  The detector is a function of the decoded image; \<open>render\<close> stands for
  \<open>np.squeeze(results.render())\<close>.
\<close>

record env =
  TOKEN :: string
  CHAT_ID :: string
  model :: "(image \<Rightarrow> exn + detection list) option"
  cv2_imdecode :: "byte list \<Rightarrow> exn + image option"
  render :: "image \<Rightarrow> detection list \<Rightarrow> image"
  cv2_imencode :: "image \<Rightarrow> exn + bool \<times> byte list"
  requests_post :: "post_request \<Rightarrow> exn + nat \<times> string"

text \<open>The observable calls a request handler makes, in order.\<close>

datatype event =
    ModelCall image
  | AlertCall image "detection list"
  | PostCall post_request

subsection \<open>JSON responses\<close>

record coordinates =
  c_xmin :: int
  c_ymin :: int
  c_xmax :: int
  c_ymax :: int

record detection_json =
  d_name :: string
  d_confidence :: real
  d_coordinates :: coordinates

record response_data =
  detections_found :: nat
  detections :: "detection_json list"
  alert_sent :: bool
  status :: string

datatype body =
    ErrorJson string
  | DetectJson response_data
  | HealthJson string string bool

text \<open>A Flask return value: the JSON body and the HTTP status code (200 when omitted).\<close>

type_synonym response = "body \<times> nat"

subsection \<open>Strings of the source\<close>

definition nl :: string where
  "nl = [CHR 0x0A]"

definition o_acute :: string where
  "o_acute = [CHR 0xC3, CHR 0xB3]"

definition i_acute :: string where
  "i_acute = [CHR 0xC3, CHR 0xAD]"

definition warning_sign :: string where
  "warning_sign = [CHR 0xE2, CHR 0x9A, CHR 0xA0]"

definition blue_diamond :: string where
  "blue_diamond = [CHR 0xF0, CHR 0x9F, CHR 0x94, CHR 0xB9]"

text \<open>
  \<open>str.lower()\<close>: the ASCII capitals move to their small letters. Python lowers other
  cased letters too; none of them lowers to text made of the ASCII letters of the
  sentinel, so the comparison with \<open>'imprimiendo'\<close> is the same.
\<close>

definition char_lower :: "char \<Rightarrow> char" where
  "char_lower c =
     (case map_of (zip ''ABCDEFGHIJKLMNOPQRSTUVWXYZ'' ''abcdefghijklmnopqrstuvwxyz'') c of
        None \<Rightarrow> c
      | Some l \<Rightarrow> l)"

definition str_lower :: "string \<Rightarrow> string" where
  "str_lower s = map char_lower s"

subsection \<open>Number formatting\<close>

text \<open>\<open>int(x)\<close> on a float truncates towards zero.\<close>

definition py_int :: "real \<Rightarrow> int" where
  "py_int x = (if 0 \<le> x then \<lfloor>x\<rfloor> else \<lceil>x\<rceil>)"

text \<open>Rounding to the nearest integer, a tie going to the even neighbour.\<close>

definition round_half_even :: "real \<Rightarrow> int" where
  "round_half_even x =
     (let f = \<lfloor>x\<rfloor>; r = x - of_int f
      in if r < 1 / 2 then f
         else if 1 / 2 < r then f + 1
         else if even f then f else f + 1)"

definition digit_char :: "nat \<Rightarrow> char" where
  "digit_char d = ''0123456789'' ! d"

fun show_nat :: "nat \<Rightarrow> string" where
  "show_nat n = (if n < 10 then [digit_char n] else show_nat (n div 10) @ [digit_char (n mod 10)])"

declare show_nat.simps [simp del]

definition zfill :: "nat \<Rightarrow> string \<Rightarrow> string" where
  "zfill w s = replicate (w - length s) (CHR ''0'') @ s"

text \<open>
  The format specification \<open>:.Nf\<close> of an f-string on a finite float: a minus sign for a
  negative value, the magnitude correctly rounded to N decimals (ties to even), and a
  decimal point only when N is positive.
\<close>

definition format_f :: "nat \<Rightarrow> real \<Rightarrow> string" where
  "format_f prec x =
     (let m = nat (round_half_even (\<bar>x\<bar> * 10 ^ prec))
      in (if x < 0 then ''-'' else '''')
         @ show_nat (m div 10 ^ prec)
         @ (if prec = 0 then '''' else ''.'' @ zfill prec (show_nat (m mod 10 ^ prec))))"

section \<open>The alert dispatcher\<close>

text \<open>The loop of \<open>send_telegram_alert\<close> that appends three lines per row to the message.\<close>

fun message_loop :: "string \<Rightarrow> detection list \<Rightarrow> string" where
  "message_loop message [] = message"
| "message_loop message (row # rows) =
     message_loop
       (message
        @ (blue_diamond @ '' *'' @ name row @ ''*'' @ nl)
        @ (''Confianza: '' @ format_f 2 (confidence row) @ nl)
        @ (''Posici'' @ o_acute @ ''n: x1='' @ format_f 0 (xmin row)
           @ '', y1='' @ format_f 0 (ymin row)
           @ '', x2='' @ format_f 0 (xmax row)
           @ '', y2='' @ format_f 0 (ymax row) @ nl @ nl))
       rows"

definition message_header :: string where
  "message_header =
     warning_sign @ '' *Detecci'' @ o_acute @ ''n de error en impresi'' @ o_acute @ ''n 3D* ''
     @ warning_sign @ nl @ nl"

text \<open>The url, the form data and the attached file of the call to the chat provider.\<close>

definition sendPhoto_request :: "env \<Rightarrow> string \<Rightarrow> byte list \<Rightarrow> post_request" where
  "sendPhoto_request e message buffer =
     \<lparr>url = ''https://api.telegram.org/bot'' @ TOKEN e @ ''/sendPhoto'',
      chat_id = CHAT_ID e, caption = message, parse_mode = ''Markdown'',
      photo_name = ''detection.jpg'', photo = buffer\<rparr>"

text \<open>
  The body of the \<open>try\<close> block: it returns a flag or raises, and logs the outbound call
  it makes.
\<close>

definition send_telegram_alert_try ::
    "env \<Rightarrow> image \<Rightarrow> detection list \<Rightarrow> (exn + bool) \<times> event list" where
  "send_telegram_alert_try e image_array dets =
     (let filtered_detections = filter (\<lambda>d. str_lower (name d) \<noteq> ''imprimiendo'') dets
      in if filtered_detections = [] then (Inr False, [])
         else
           (case cv2_imencode e image_array of
              Inl ex \<Rightarrow> (Inl ex, [])
            | Inr (is_success, buffer) \<Rightarrow>
                if \<not> is_success then (Inr False, [])
                else
                  (let message = message_loop message_header filtered_detections;
                       req = sendPhoto_request e message buffer
                   in (case requests_post e req of
                         Inl ex \<Rightarrow> (Inl ex, [PostCall req])
                       | Inr (status_code, txt) \<Rightarrow>
                           if status_code \<noteq> 200 then (Inr False, [PostCall req])
                           else (Inr True, [PostCall req])))))"

text \<open>\<open>send_telegram_alert\<close> with its \<open>except Exception\<close> handler, which returns \<open>False\<close>.\<close>

definition send_telegram_alert :: "env \<Rightarrow> image \<Rightarrow> detection list \<Rightarrow> bool \<times> event list" where
  "send_telegram_alert e image_array dets =
     (case send_telegram_alert_try e image_array dets of
        (Inl ex, evs) \<Rightarrow> (False, AlertCall image_array dets # evs)
      | (Inr b, evs) \<Rightarrow> (b, AlertCall image_array dets # evs))"

section \<open>The request handlers\<close>

definition health_check :: "env \<Rightarrow> response" where
  "health_check e =
     (let st = (if model e \<noteq> None then ''OK'' else ''ERROR'')
      in (HealthJson st
            (''Servidor de detecci'' @ o_acute @ ''n de errores en impresi'' @ o_acute @ ''n 3D'')
            (model e \<noteq> None),
          200))"

text \<open>The loop that converts each row to its JSON record and appends it.\<close>

definition row_json :: "detection \<Rightarrow> detection_json" where
  "row_json row =
     \<lparr>d_name = name row, d_confidence = confidence row,
      d_coordinates = \<lparr>c_xmin = py_int (xmin row), c_ymin = py_int (ymin row),
                       c_xmax = py_int (xmax row), c_ymax = py_int (ymax row)\<rparr>\<rparr>"

fun detections_loop :: "detection_json list \<Rightarrow> detection list \<Rightarrow> detection_json list" where
  "detections_loop acc [] = acc"
| "detections_loop acc (row # rows) = detections_loop (acc @ [row_json row]) rows"

text \<open>An uploaded file of \<open>request.files\<close>.\<close>

record upload =
  filename :: string
  content :: "byte list"

text \<open>
  \<open>POST /detect\<close>: first the body of the \<open>try\<close> block, which returns a response or
  raises, then the handler with its \<open>except Exception\<close> clause.
\<close>

definition detect_errors_try ::
    "env \<Rightarrow> (string \<rightharpoonup> upload) \<Rightarrow> (exn + response) \<times> event list" where
  "detect_errors_try e files =
     (case model e of
        None \<Rightarrow> (Inr (ErrorJson ''Modelo no disponible'', 500), [])
      | Some detector \<Rightarrow>
     (case files ''image'' of
        None \<Rightarrow> (Inr (ErrorJson (''No se envi'' @ o_acute @ '' ninguna imagen''), 400), [])
      | Some file \<Rightarrow>
     if filename file = '''' then (Inr (ErrorJson (''Archivo vac'' @ i_acute @ ''o''), 400), [])
     else
     (case cv2_imdecode e (content file) of
        Inl ex \<Rightarrow> (Inl ex, [])
      | Inr None \<Rightarrow> (Inr (ErrorJson ''No se pudo decodificar la imagen'', 400), [])
      | Inr (Some img) \<Rightarrow>
     (case detector img of
        Inl ex \<Rightarrow> (Inl ex, [ModelCall img])
      | Inr dets \<Rightarrow>
          (let data = \<lparr>detections_found = length dets, detections = [],
                       alert_sent = False, status = ''normal''\<rparr>
           in if length dets > 0 then
                (let data = data\<lparr>detections := detections_loop (detections data) dets\<rparr>;
                     error_detections =
                       filter (\<lambda>d. str_lower (name d) \<noteq> ''imprimiendo'') dets
                 in if error_detections \<noteq> [] then
                      (let rendered_image = render e img dets;
                           (sent, evs) = send_telegram_alert e rendered_image dets
                       in (Inr (DetectJson (data\<lparr>alert_sent := sent,
                                                  status := ''error_detected''\<rparr>), 200),
                           ModelCall img # evs))
                    else
                      (Inr (DetectJson (data\<lparr>status := ''printing_normal''\<rparr>), 200),
                       [ModelCall img]))
              else (Inr (DetectJson data, 200), [ModelCall img]))))))"

definition detect_errors :: "env \<Rightarrow> (string \<rightharpoonup> upload) \<Rightarrow> response \<times> event list" where
  "detect_errors e files =
     (case detect_errors_try e files of
        (Inr resp, evs) \<Rightarrow> (resp, evs)
      | (Inl (Exn msg), evs) \<Rightarrow>
          ((ErrorJson (''Error interno del servidor: '' @ msg), 500), evs))"

section \<open>The base64 transport\<close>

subsection \<open>Parsed JSON values\<close>

text \<open>
  The Python value \<open>request.get_json()\<close> returns: \<open>None\<close>, a bool, a number, a string,
  a list, or a dict (its items listed once per key).
\<close>

datatype pyval =
    PNone
  | PBool bool
  | PNum real
  | PStr string
  | PList "pyval list"
  | PDict "(string \<times> pyval) list"

text \<open>Truth value testing, as \<open>not data\<close> does it.\<close>

fun truthy :: "pyval \<Rightarrow> bool" where
  "truthy PNone = False"
| "truthy (PBool b) = b"
| "truthy (PNum x) = (x \<noteq> 0)"
| "truthy (PStr s) = (s \<noteq> [])"
| "truthy (PList xs) = (xs \<noteq> [])"
| "truthy (PDict kvs) = (kvs \<noteq> [])"

text \<open>
  \<open>key in data\<close> for a string key: a key of a dict, an element of a list, a substring of
  a string; a \<open>TypeError\<close> on anything else.
\<close>

fun py_contains :: "string \<Rightarrow> pyval \<Rightarrow> exn + bool" where
  "py_contains k (PDict kvs) = Inr (k \<in> set (map fst kvs))"
| "py_contains k (PList xs) = Inr (PStr k \<in> set xs)"
| "py_contains k (PStr s) = Inr (sublist k s)"
| "py_contains k PNone = Inl (Exn ''argument of type 'NoneType' is not iterable'')"
| "py_contains k (PBool b) = Inl (Exn ''argument of type 'bool' is not iterable'')"
| "py_contains k (PNum x) = Inl (Exn ''argument of type 'int' is not iterable'')"

text \<open>\<open>data[key]\<close> for a string key: defined on a dict that has the key.\<close>

fun py_getitem :: "pyval \<Rightarrow> string \<Rightarrow> exn + pyval" where
  "py_getitem (PDict kvs) k =
     (case map_of kvs k of None \<Rightarrow> Inl (Exn (''KeyError: '' @ k)) | Some v \<Rightarrow> Inr v)"
| "py_getitem (PList xs) k = Inl (Exn ''list indices must be integers or slices, not str'')"
| "py_getitem (PStr s) k = Inl (Exn ''string indices must be integers'')"
| "py_getitem PNone k = Inl (Exn ''object is not subscriptable'')"
| "py_getitem (PBool b) k = Inl (Exn ''object is not subscriptable'')"
| "py_getitem (PNum x) k = Inl (Exn ''object is not subscriptable'')"

subsection \<open>The base64 codec of the standard library\<close>

text \<open>
  \<open>base64.b64encode\<close> and \<open>base64.b64decode\<close> are Python's, not the repository's: they
  are modelled after CPython's \<open>binascii\<close>. A sextet is a natural number below 64; the
  shifts and masks of the C code are written as division and remainder by powers of two.
\<close>

definition b64_alphabet :: string where
  "b64_alphabet = ''ABCDEFGHIJKLMNOPQRSTUVWXYZabcdefghijklmnopqrstuvwxyz0123456789+/''"

definition table_b2a_base64 :: "nat \<Rightarrow> char" where
  "table_b2a_base64 v = b64_alphabet ! v"

fun index_of :: "'a \<Rightarrow> 'a list \<Rightarrow> nat option" where
  "index_of x [] = None"
| "index_of x (y # ys) =
     (if x = y then Some 0 else (case index_of x ys of None \<Rightarrow> None | Some i \<Rightarrow> Some (Suc i)))"

text \<open>The decoding table: \<open>None\<close> for a character outside the alphabet.\<close>

definition table_a2b_base64 :: "char \<Rightarrow> nat option" where
  "table_a2b_base64 c = index_of c b64_alphabet"

fun b64encode :: "byte list \<Rightarrow> string" where
  "b64encode [] = []"
| "b64encode [a] =
     [table_b2a_base64 (unat a div 4), table_b2a_base64 (unat a mod 4 * 16),
      CHR ''='', CHR ''='']"
| "b64encode [a, b] =
     [table_b2a_base64 (unat a div 4),
      table_b2a_base64 (unat a mod 4 * 16 + unat b div 16),
      table_b2a_base64 (unat b mod 16 * 4), CHR ''='']"
| "b64encode (a # b # c # rest) =
     [table_b2a_base64 (unat a div 4),
      table_b2a_base64 (unat a mod 4 * 16 + unat b div 16),
      table_b2a_base64 (unat b mod 16 * 4 + unat c div 64),
      table_b2a_base64 (unat c mod 64)] @ b64encode rest"

text \<open>
  The decoding loop of \<open>binascii.a2b_base64\<close> in its default, non-strict mode, over the
  state \<open>quad_pos\<close>, \<open>leftchar\<close>, \<open>pads\<close> and the output written so far. Characters outside
  the alphabet are skipped; a complete pad sequence ends the decoding; input that ends
  inside a quad raises \<open>binascii.Error\<close>.
\<close>

fun a2b_loop :: "nat \<Rightarrow> nat \<Rightarrow> nat \<Rightarrow> byte list \<Rightarrow> string \<Rightarrow> exn + byte list" where
  "a2b_loop quad_pos leftchar pads bin_data [] =
     (if quad_pos \<noteq> 0 then
        (if quad_pos = 1 then Inl (Exn ''Invalid base64-encoded string'')
         else Inl (Exn ''Incorrect padding''))
      else Inr bin_data)"
| "a2b_loop quad_pos leftchar pads bin_data (this_ch # rest) =
     (if this_ch = CHR ''='' then
        (if quad_pos \<ge> 2 \<and> quad_pos + (pads + 1) \<ge> 4 then Inr bin_data
         else a2b_loop quad_pos leftchar (if quad_pos \<ge> 2 then pads + 1 else pads)
                bin_data rest)
      else
        (case table_a2b_base64 this_ch of
           None \<Rightarrow> a2b_loop quad_pos leftchar pads bin_data rest
         | Some v \<Rightarrow>
             if quad_pos = 0 then a2b_loop 1 v 0 bin_data rest
             else if quad_pos = 1 then
               a2b_loop 2 (v mod 16) 0 (bin_data @ [of_nat (leftchar * 4 + v div 16)]) rest
             else if quad_pos = 2 then
               a2b_loop 3 (v mod 4) 0 (bin_data @ [of_nat (leftchar * 16 + v div 4)]) rest
             else a2b_loop 0 0 0 (bin_data @ [of_nat (leftchar * 64 + v)]) rest))"

text \<open>\<open>base64.b64decode\<close> on a \<open>str\<close>: the text must be ASCII, then the loop runs.\<close>

definition b64decode :: "string \<Rightarrow> exn + byte list" where
  "b64decode s =
     (if list_ex (\<lambda>c. 128 \<le> (of_char c :: nat)) s
      then Inl (Exn ''string argument should contain only ASCII characters'')
      else a2b_loop 0 0 0 [] s)"

text \<open>\<open>s.split(',')[1]\<close> for a string that contains a comma.\<close>

definition split_comma_1 :: "string \<Rightarrow> string" where
  "split_comma_1 s =
     takeWhile (\<lambda>c. c \<noteq> CHR '','') (tl (dropWhile (\<lambda>c. c \<noteq> CHR '','') s))"

subsection \<open>The handler\<close>

text \<open>
  The inner \<open>try\<close> block of \<open>detect_errors_base64\<close>: index the data, cut a data-URI
  prefix off, decode the base64 text and the image. Only a string has \<open>split\<close> and can
  be base64-decoded; any other value raises.
\<close>

definition decode_base64_image :: "env \<Rightarrow> pyval \<Rightarrow> exn + image option" where
  "decode_base64_image e data =
     (case py_getitem data ''image'' of
        Inl ex \<Rightarrow> Inl ex
      | Inr (PStr s) \<Rightarrow>
          (case b64decode (if CHR '','' \<in> set s then split_comma_1 s else s) of
             Inl ex \<Rightarrow> Inl ex
           | Inr image_data \<Rightarrow> cv2_imdecode e image_data)
      | Inr _ \<Rightarrow> Inl (Exn ''TypeError''))"

text \<open>
  \<open>POST /detect_base64\<close>. The request is what \<open>request.get_json()\<close> yields: the parsed
  value, or the exception Flask raises on a body that is not JSON.
\<close>

definition detect_errors_base64_try ::
    "env \<Rightarrow> exn + pyval \<Rightarrow> (exn + response) \<times> event list" where
  "detect_errors_base64_try e get_json =
     (case model e of
        None \<Rightarrow> (Inr (ErrorJson ''Modelo no disponible'', 500), [])
      | Some detector \<Rightarrow>
     (case get_json of
        Inl ex \<Rightarrow> (Inl ex, [])
      | Inr data \<Rightarrow>
     if \<not> truthy data
     then (Inr (ErrorJson (''No se envi'' @ o_acute @ '' imagen en base64''), 400), [])
     else
     (case py_contains ''image'' data of
        Inl ex \<Rightarrow> (Inl ex, [])
      | Inr False \<Rightarrow>
          (Inr (ErrorJson (''No se envi'' @ o_acute @ '' imagen en base64''), 400), [])
      | Inr True \<Rightarrow>
     (case decode_base64_image e data of
        Inl (Exn msg) \<Rightarrow>
          (Inr (ErrorJson (''Error al decodificar imagen base64: '' @ msg), 400), [])
      | Inr None \<Rightarrow> (Inr (ErrorJson ''No se pudo decodificar la imagen'', 400), [])
      | Inr (Some img) \<Rightarrow>
     (case detector img of
        Inl ex \<Rightarrow> (Inl ex, [ModelCall img])
      | Inr dets \<Rightarrow>
          (let data = \<lparr>detections_found = length dets, detections = [],
                       alert_sent = False, status = ''normal''\<rparr>
           in if length dets > 0 then
                (let data = data\<lparr>detections := detections_loop (detections data) dets\<rparr>;
                     error_detections =
                       filter (\<lambda>d. str_lower (name d) \<noteq> ''imprimiendo'') dets
                 in if error_detections \<noteq> [] then
                      (let rendered_image = render e img dets;
                           (sent, evs) = send_telegram_alert e rendered_image dets
                       in (Inr (DetectJson (data\<lparr>alert_sent := sent,
                                                  status := ''error_detected''\<rparr>), 200),
                           ModelCall img # evs))
                    else
                      (Inr (DetectJson (data\<lparr>status := ''printing_normal''\<rparr>), 200),
                       [ModelCall img]))
              else (Inr (DetectJson data, 200), [ModelCall img])))))))"

definition detect_errors_base64 :: "env \<Rightarrow> exn + pyval \<Rightarrow> response \<times> event list" where
  "detect_errors_base64 e get_json =
     (case detect_errors_base64_try e get_json of
        (Inr resp, evs) \<Rightarrow> (resp, evs)
      | (Inl (Exn msg), evs) \<Rightarrow>
          ((ErrorJson (''Error interno del servidor: '' @ msg), 500), evs))"

section \<open>The capture client (raspberry_client.py)\<close>

text \<open>
  A call either returns or raises. The client's handlers tell these exceptions apart:
  \<open>NameError\<close> (a global name with no binding), \<open>requests.exceptions.RequestException\<close>
  (timeouts and connection errors), any other \<open>Exception\<close>, and \<open>KeyboardInterrupt\<close>,
  which no \<open>except Exception\<close> clause catches.
\<close>

datatype exn_kind = NameError string | RequestException | OtherException | KeyboardInterrupt

datatype 'a outcome = Returns 'a | Raises exn_kind

text \<open>
  The global names of the module: its imports (lines 1 to 6: \<open>base64\<close>, \<open>logging\<close>,
  \<open>datetime\<close>, \<open>os\<close>, \<open>Picamera2\<close>, \<open>np\<close>) and what the module itself defines. The
  module also uses \<open>cv2\<close>, \<open>requests\<close> and \<open>time\<close>, which it never imports.
\<close>

definition module_globals :: "string list" where
  "module_globals =
     [''base64'', ''logging'', ''datetime'', ''os'', ''Picamera2'', ''np'',
      ''SERVER_URL'', ''CAPTURE_INTERVAL'', ''USE_PI_CAMERA'', ''logger'',
      ''CameraClient'', ''main'']"

text \<open>
  A call made through a global name: looking up a name that is not bound raises
  \<open>NameError\<close> and the call is not made; otherwise the call has its outcome.
\<close>

definition global_call :: "string \<Rightarrow> 'a outcome \<Rightarrow> 'a outcome" where
  "global_call n call = (if n \<in> set module_globals then call else Raises (NameError n))"

definition global_events :: "string \<Rightarrow> 'e list \<Rightarrow> 'e list" where
  "global_events n evs = (if n \<in> set module_globals then evs else [])"

definition SERVER_URL :: string where
  "SERVER_URL = ''https://tu-app-render.onrender.com''"

definition CAPTURE_INTERVAL :: nat where
  "CAPTURE_INTERVAL = 30"

definition USE_PI_CAMERA :: bool where
  "USE_PI_CAMERA = True"

text \<open>
  What the outside world answers before the loop: the health probe as
  \<open>(status_code, response.json())\<close> with \<open>None\<close> where \<open>json()\<close> raises, starting the
  Raspberry Pi camera, the wait of two seconds, and opening the webcam (\<open>isOpened()\<close>).
\<close>

record startup_io =
  io_session_get :: "(nat \<times> pyval option) outcome"
  io_picamera_start :: "unit outcome"
  io_startup_sleep :: "unit outcome"
  io_open_webcam :: "bool outcome"

text \<open>
  What the outside world answers during one pass of the main loop: the camera frame, its
  colour conversion, the webcam's pair \<open>(ret, image)\<close>, \<open>cv2.imwrite\<close>, \<open>cv2.imencode\<close>, the
  server's answer to each of the two uploads, and the \<open>time.sleep\<close> call of the pass.
\<close>

record cycle_io =
  io_capture_array :: "image outcome"
  io_cvtColor :: "image \<Rightarrow> image outcome"
  io_camera_read :: "(bool \<times> image) outcome"
  io_imwrite :: "bool outcome"
  io_imencode :: "image \<Rightarrow> byte list outcome"
  io_post_detect :: "(nat \<times> pyval option) outcome"
  io_post_base64 :: "(nat \<times> pyval option) outcome"
  io_sleep :: "unit outcome"

datatype client_event =
    HealthProbe
  | Capture
  | Imwrite
  | PostDetect string "byte list"
  | PostBase64 string string
  | Sleep nat
  | Cleanup

text \<open>\<open>CameraClient.__init__\<close>: the session is made by \<open>requests.Session()\<close>.\<close>

definition CameraClient_init :: "unit outcome" where
  "CameraClient_init = global_call ''requests'' (Returns ())"

text \<open>An \<open>except Exception: return None\<close> clause: \<open>KeyboardInterrupt\<close> passes through.\<close>

definition except_Exception :: "exn_kind \<Rightarrow> pyval outcome" where
  "except_Exception k = (if k = KeyboardInterrupt then Raises KeyboardInterrupt else Returns PNone)"

definition initialize_camera :: "startup_io \<Rightarrow> unit outcome \<times> client_event list" where
  "initialize_camera st =
     (if USE_PI_CAMERA then
        (case io_picamera_start st of
           Raises k \<Rightarrow> (Raises k, [])
         | Returns u \<Rightarrow> (global_call ''time'' (io_startup_sleep st), global_events ''time'' [Sleep 2]))
      else
        (case global_call ''cv2'' (io_open_webcam st) of
           Raises k \<Rightarrow> (Raises k, [])
         | Returns opened \<Rightarrow> if \<not> opened then (Raises OtherException, []) else (Returns (), [])))"

definition capture_image :: "cycle_io \<Rightarrow> image option outcome" where
  "capture_image io =
     (case (if USE_PI_CAMERA then
              (case io_capture_array io of
                 Raises k \<Rightarrow> Raises k
               | Returns raw \<Rightarrow> global_call ''cv2'' (io_cvtColor io raw))
            else
              (case io_camera_read io of
                 Raises k \<Rightarrow> Raises k
               | Returns (ret, img) \<Rightarrow> if \<not> ret then Raises OtherException else Returns img)) of
        Returns img \<Rightarrow> Returns (Some img)
      | Raises k \<Rightarrow> if k = KeyboardInterrupt then Raises k else Returns None)"

text \<open>
  The processing of a 200 answer in \<open>send_image_to_server\<close> reads fields of the result
  and raises where one is missing or of the wrong type; \<open>result_processed\<close> says that it
  runs through. \<open>gt_zero\<close> is \<open>v > 0\<close>, \<open>None\<close> being the \<open>TypeError\<close>.
\<close>

fun gt_zero :: "pyval \<Rightarrow> bool option" where
  "gt_zero (PNum x) = Some (0 < x)"
| "gt_zero (PBool b) = Some b"
| "gt_zero _ = None"

fun is_number :: "pyval \<Rightarrow> bool" where
  "is_number (PNum x) = True"
| "is_number (PBool b) = True"
| "is_number _ = False"

definition detection_logged :: "pyval \<Rightarrow> bool" where
  "detection_logged d =
     (case py_getitem d ''name'' of
        Inl ex \<Rightarrow> False
      | Inr n \<Rightarrow> (case py_getitem d ''confidence'' of Inl ex \<Rightarrow> False | Inr c \<Rightarrow> is_number c))"

fun detections_logged :: "pyval \<Rightarrow> bool" where
  "detections_logged (PList ds) = list_all detection_logged ds"
| "detections_logged (PDict kvs) = (kvs = [])"
| "detections_logged (PStr s) = (s = [])"
| "detections_logged _ = False"

definition result_processed :: "pyval \<Rightarrow> bool" where
  "result_processed result =
     (case py_getitem result ''detections_found'' of
        Inl ex \<Rightarrow> False
      | Inr n \<Rightarrow>
          (case gt_zero n of
             None \<Rightarrow> False
           | Some False \<Rightarrow> True
           | Some True \<Rightarrow>
               (case py_getitem result ''detections'' of
                  Inl ex \<Rightarrow> False
                | Inr ds \<Rightarrow>
                    detections_logged ds
                    \<and> (case py_getitem result ''status'' of Inl ex \<Rightarrow> False | Inr st \<Rightarrow> True))))"

text \<open>
  \<open>send_image_to_server\<close>. The body of its \<open>try\<close> block returns the parsed result, returns
  \<open>None\<close> (\<open>PNone\<close>) on an answer other than 200, or raises. When it raises, the first
  handler \<open>except requests.exceptions.RequestException\<close> is matched first, which looks
  the name \<open>requests\<close> up; only then comes \<open>except Exception\<close>.
\<close>

definition send_image_to_server_try :: "cycle_io \<Rightarrow> image \<Rightarrow> pyval outcome \<times> client_event list" where
  "send_image_to_server_try io img =
     (case global_call ''cv2'' (io_imencode io img) of
        Raises k \<Rightarrow> (Raises k, [])
      | Returns buffer \<Rightarrow>
          (case io_post_detect io of
             Raises k \<Rightarrow> (Raises k, [PostDetect (SERVER_URL @ ''/detect'') buffer])
           | Returns (status_code, js) \<Rightarrow>
               (if status_code = 200 then
                  (case js of
                     None \<Rightarrow> Raises OtherException
                   | Some result \<Rightarrow>
                       if result_processed result then Returns result else Raises OtherException)
                else Returns PNone,
                [PostDetect (SERVER_URL @ ''/detect'') buffer])))"

definition send_image_to_server :: "cycle_io \<Rightarrow> image \<Rightarrow> pyval outcome \<times> client_event list" where
  "send_image_to_server io img =
     (case send_image_to_server_try io img of
        (Returns result, evs) \<Rightarrow> (Returns result, evs)
      | (Raises k, evs) \<Rightarrow>
          (global_call ''requests''
             (if k = RequestException then Returns PNone else except_Exception k),
           evs))"

definition send_image_base64_try :: "cycle_io \<Rightarrow> image \<Rightarrow> pyval outcome \<times> client_event list" where
  "send_image_base64_try io img =
     (case global_call ''cv2'' (io_imencode io img) of
        Raises k \<Rightarrow> (Raises k, [])
      | Returns buffer \<Rightarrow>
          (let image_base64 = b64encode buffer;
               data = ''data:image/jpeg;base64,'' @ image_base64
           in (case io_post_base64 io of
                 Raises k \<Rightarrow> (Raises k, [PostBase64 (SERVER_URL @ ''/detect_base64'') data])
               | Returns (status_code, js) \<Rightarrow>
                   (if status_code = 200 then
                      (case js of None \<Rightarrow> Raises OtherException | Some result \<Rightarrow> Returns result)
                    else Returns PNone,
                    [PostBase64 (SERVER_URL @ ''/detect_base64'') data]))))"

definition send_image_base64 :: "cycle_io \<Rightarrow> image \<Rightarrow> pyval outcome \<times> client_event list" where
  "send_image_base64 io img =
     (case send_image_base64_try io img of
        (Returns result, evs) \<Rightarrow> (Returns result, evs)
      | (Raises k, evs) \<Rightarrow> (except_Exception k, evs))"

text \<open>
  \<open>test_server_connection\<close>: the truth value of \<open>model_loaded\<close> in a 200 answer, \<open>False\<close>
  on any other answer and on any exception.
\<close>

definition test_server_connection :: "startup_io \<Rightarrow> bool outcome" where
  "test_server_connection st =
     (case io_session_get st of
        Raises k \<Rightarrow> if k = KeyboardInterrupt then Raises k else Returns False
      | Returns (status_code, js) \<Rightarrow>
          if status_code = 200 then
            (case js of
               Some (PDict kvs) \<Rightarrow>
                 Returns (case map_of kvs ''model_loaded'' of None \<Rightarrow> False | Some v \<Rightarrow> truthy v)
             | _ \<Rightarrow> Returns False)
          else Returns False)"

text \<open>
  One pass of the \<open>while True\<close> loop of \<open>main\<close>. The body of its \<open>try\<close> block returns
  normally (also on \<open>continue\<close>) or raises; the two \<open>except\<close> clauses then decide how the
  loop goes on.
\<close>

definition cycle_try :: "cycle_io \<Rightarrow> unit outcome \<times> client_event list" where
  "cycle_try io =
     (case capture_image io of
        Raises k \<Rightarrow> (Raises k, [Capture])
      | Returns None \<Rightarrow>
          (global_call ''time'' (io_sleep io), [Capture] @ global_events ''time'' [Sleep 5])
      | Returns (Some img) \<Rightarrow>
          (case global_call ''cv2'' (io_imwrite io) of
             Raises k \<Rightarrow> (Raises k, [Capture] @ global_events ''cv2'' [Imwrite])
           | Returns written \<Rightarrow>
               (case send_image_to_server io img of
                  (Raises k, evs) \<Rightarrow> (Raises k, [Capture, Imwrite] @ evs)
                | (Returns result, evs) \<Rightarrow>
                    if result = PNone then
                      (case send_image_base64 io img of
                         (Raises k, evs') \<Rightarrow> (Raises k, [Capture, Imwrite] @ evs @ evs')
                       | (Returns result', evs') \<Rightarrow>
                           (global_call ''time'' (io_sleep io),
                            [Capture, Imwrite] @ evs @ evs'
                            @ global_events ''time'' [Sleep CAPTURE_INTERVAL]))
                    else (global_call ''time'' (io_sleep io),
                          [Capture, Imwrite] @ evs
                          @ global_events ''time'' [Sleep CAPTURE_INTERVAL]))))"

text \<open>
  How a pass ends: the loop goes on to its next pass, leaves by \<open>break\<close>, or is left by
  an exception raised inside the \<open>except Exception\<close> clause, which sleeps ten seconds.
\<close>

datatype control = Continue | Break | Propagate exn_kind

definition cycle :: "cycle_io \<Rightarrow> control \<times> client_event list" where
  "cycle io =
     (case cycle_try io of
        (Returns u, evs) \<Rightarrow> (Continue, evs)
      | (Raises k, evs) \<Rightarrow>
          if k = KeyboardInterrupt then (Break, evs)
          else (case global_call ''time'' (io_sleep io) of
                  Returns u \<Rightarrow> (Continue, evs @ [Sleep 10])
                | Raises k' \<Rightarrow> (Propagate k', evs @ global_events ''time'' [Sleep 10])))"

text \<open>
  The loop over the answers of the outside world, one per pass, as far as they are
  observed: it returns on \<open>break\<close> and raises what a pass lets escape.
\<close>

fun main_loop :: "cycle_io list \<Rightarrow> unit outcome \<times> client_event list" where
  "main_loop [] = (Returns (), [])"
| "main_loop (io # ios) =
     (case cycle io of
        (Continue, evs) \<Rightarrow> (case main_loop ios of (r, evs') \<Rightarrow> (r, evs @ evs'))
      | (Break, evs) \<Rightarrow> (Returns (), evs)
      | (Propagate k, evs) \<Rightarrow> (Raises k, evs))"

text \<open>
  The \<open>try\<close> block of \<open>main\<close>: the health probe, the camera, the loop. Then \<open>main\<close>: the
  client object is made before the \<open>try\<close>; \<open>except Exception\<close> swallows what the block
  raises short of a keyboard interrupt; \<open>finally\<close> releases the camera.
\<close>

definition main_try :: "startup_io \<Rightarrow> cycle_io list \<Rightarrow> unit outcome \<times> client_event list" where
  "main_try st ios =
     (case test_server_connection st of
        Raises k \<Rightarrow> (Raises k, [HealthProbe])
      | Returns False \<Rightarrow> (Returns (), [HealthProbe])
      | Returns True \<Rightarrow>
          (case initialize_camera st of
             (Raises k, evs) \<Rightarrow> (Raises k, HealthProbe # evs)
           | (Returns u, evs) \<Rightarrow>
               (case main_loop ios of (r, evs') \<Rightarrow> (r, HealthProbe # evs @ evs'))))"

definition main :: "startup_io \<Rightarrow> cycle_io list \<Rightarrow> unit outcome \<times> client_event list" where
  "main st ios =
     (case CameraClient_init of
        Raises k \<Rightarrow> (Raises k, [])
      | Returns client \<Rightarrow>
          (case main_try st ios of
             (Returns u, evs) \<Rightarrow> (Returns (), evs @ [Cleanup])
           | (Raises k, evs) \<Rightarrow>
               (if k = KeyboardInterrupt then Raises k else Returns (), evs @ [Cleanup])))"

section \<open>Example inputs\<close>

text \<open>
  A small environment to run the handlers on: a byte stream decodes when it starts with
  the byte FF, to the image of its remaining bytes; decoding an empty buffer raises; the
  detector answers by the first pixel; the chat provider accepts every call.
\<close>

definition printing :: detection where
  "printing = \<lparr>name = ''imprimiendo'', confidence = 91 / 100,
               xmin = 0, ymin = 0, xmax = 50, ymax = 60\<rparr>"

definition stringing :: detection where
  "stringing = \<lparr>name = ''stringing'', confidence = 77 / 100,
                xmin = 10, ymin = 20, xmax = 110, ymax = 220\<rparr>"

definition example_detector :: "image \<Rightarrow> exn + detection list" where
  "example_detector img =
     (case pixels img of
        [] \<Rightarrow> Inr []
      | p # ps \<Rightarrow>
          if p = 1 then Inr [printing]
          else if p = 2 then Inr [printing, stringing]
          else if p = 3 then Inl (Exn ''inference failed'')
          else Inr [])"

definition example_imdecode :: "byte list \<Rightarrow> exn + image option" where
  "example_imdecode bs =
     (case bs of
        [] \<Rightarrow> Inl (Exn ''empty buffer'')
      | b # rest \<Rightarrow> if b = 255 then Inr (Some (Image rest)) else Inr None)"

definition example_env :: env where
  "example_env =
     \<lparr>TOKEN = ''token'', CHAT_ID = ''chat'', model = Some example_detector,
      cv2_imdecode = example_imdecode, render = (\<lambda>img dets. img),
      cv2_imencode = (\<lambda>img. Inr (True, pixels img)),
      requests_post = (\<lambda>req. Inr (200, ''ok''))\<rparr>"

definition example_files :: "byte list \<Rightarrow> (string \<rightharpoonup> upload)" where
  "example_files bs = [''image'' \<mapsto> \<lparr>filename = ''capture.jpg'', content = bs\<rparr>]"

text \<open>A detector that reports the sentinel with a capital initial.\<close>

definition capital_detector :: "image \<Rightarrow> exn + detection list" where
  "capital_detector img = Inr [printing\<lparr>name := ''Imprimiendo''\<rparr>]"

section \<open>Vocabulary of the statements\<close>

text \<open>The rows the source keeps after filtering the sentinel label out.\<close>

definition error_rows :: "detection list \<Rightarrow> detection list" where
  "error_rows dets = filter (\<lambda>d. str_lower (name d) \<noteq> ''imprimiendo'') dets"

text \<open>A multipart request whose field \<open>image\<close> is a named file that decodes to \<open>img\<close>.\<close>

definition multipart_decodes :: "env \<Rightarrow> (string \<rightharpoonup> upload) \<Rightarrow> image \<Rightarrow> bool" where
  "multipart_decodes e files img =
     (case files ''image'' of
        None \<Rightarrow> False
      | Some file \<Rightarrow> filename file \<noteq> '''' \<and> cv2_imdecode e (content file) = Inr (Some img))"

text \<open>A JSON request whose field \<open>image\<close> decodes to \<open>img\<close>.\<close>

definition base64_decodes :: "env \<Rightarrow> pyval \<Rightarrow> image \<Rightarrow> bool" where
  "base64_decodes e data img =
     (truthy data \<and> py_contains ''image'' data = Inr True
      \<and> decode_base64_image e data = Inr (Some img))"

text \<open>What either handler answers once the image is decoded and the detector has returned.\<close>

definition process_batch :: "env \<Rightarrow> image \<Rightarrow> detection list \<Rightarrow> response \<times> event list" where
  "process_batch e img dets =
     (if dets = [] then
        ((DetectJson \<lparr>detections_found = 0, detections = [], alert_sent = False,
                      status = ''normal''\<rparr>, 200), [ModelCall img])
      else if error_rows dets = [] then
        ((DetectJson \<lparr>detections_found = length dets, detections = map row_json dets,
                      alert_sent = False, status = ''printing_normal''\<rparr>, 200),
         [ModelCall img])
      else
        ((DetectJson \<lparr>detections_found = length dets, detections = map row_json dets,
                      alert_sent = fst (send_telegram_alert e (render e img dets) dets),
                      status = ''error_detected''\<rparr>, 200),
         ModelCall img # snd (send_telegram_alert e (render e img dets) dets)))"

text \<open>
  A label that is the sentinel up to the case of its letters: letter by letter it is the
  small or the capital letter of \<open>imprimiendo\<close>.
\<close>

definition sentinel_ignoring_case :: "string \<Rightarrow> bool" where
  "sentinel_ignoring_case s =
     list_all2 (\<lambda>c p. c = fst p \<or> c = snd p) s (zip ''imprimiendo'' ''IMPRIMIENDO'')"

text \<open>
  The caption as the specification words it: for each reported detection its label, its
  confidence with two decimals, and its four box coordinates rounded to integers. Both
  numbers are rounded to the nearest value, a tie going to the even neighbour; \<open>read_nat\<close>
  reads a decimal numeral back.
\<close>

definition two_decimals :: "real \<Rightarrow> string" where
  "two_decimals x =
     (let m = nat (round_half_even (\<bar>x\<bar> * 100))
      in (if x < 0 then ''-'' else '''')
         @ show_nat (m div 100) @ ''.'' @ [digit_char (m div 10 mod 10), digit_char (m mod 10)])"

definition rounded_integer :: "real \<Rightarrow> string" where
  "rounded_integer x = (if x < 0 then ''-'' else '''') @ show_nat (nat (round_half_even \<bar>x\<bar>))"

definition caption_entry :: "detection \<Rightarrow> string" where
  "caption_entry d =
     blue_diamond @ '' *'' @ name d @ ''*'' @ nl
     @ ''Confianza: '' @ two_decimals (confidence d) @ nl
     @ ''Posici'' @ o_acute @ ''n: x1='' @ rounded_integer (xmin d)
     @ '', y1='' @ rounded_integer (ymin d)
     @ '', x2='' @ rounded_integer (xmax d)
     @ '', y2='' @ rounded_integer (ymax d) @ nl @ nl"

definition digit_value :: "char \<Rightarrow> nat" where
  "digit_value c = (case index_of c ''0123456789'' of None \<Rightarrow> 0 | Some d \<Rightarrow> d)"

definition read_nat :: "string \<Rightarrow> nat" where
  "read_nat s = foldl (\<lambda>a c. 10 * a + digit_value c) 0 s"






section \<open>The handlers after a successful decode\<close>

lemma detections_loop_eq: "detections_loop acc dets = acc @ map row_json dets"
  by (induction dets arbitrary: acc) simp_all

lemma detect_errors_decoded:
  assumes "model e = Some detector" "multipart_decodes e files img" "detector img = Inr dets"
  shows "detect_errors e files = process_batch e img dets"
proof -
  from assms(2) obtain upl where f: "files ''image'' = Some upl" "filename upl \<noteq> []"
      "cv2_imdecode e (content upl) = Inr (Some img)"
    by (auto simp add: multipart_decodes_def split: option.splits)
  with assms(1,3) show ?thesis
    by (simp add: detect_errors_def detect_errors_try_def process_batch_def error_rows_def
        detections_loop_eq Let_def split: prod.splits)
qed

lemma detect_errors_base64_decoded:
  assumes "model e = Some detector" "base64_decodes e data img" "detector img = Inr dets"
  shows "detect_errors_base64 e (Inr data) = process_batch e img dets"
  using assms
  by (simp add: detect_errors_base64_def detect_errors_base64_try_def process_batch_def
      error_rows_def base64_decodes_def detections_loop_eq Let_def split: prod.splits)

lemma error_rows_empty_iff:
  "error_rows dets = [] \<longleftrightarrow> (\<forall>d\<in>set dets. str_lower (name d) = ''imprimiendo'')"
  by (simp add: error_rows_def filter_empty_conv)

lemma alert_events:
  "snd (send_telegram_alert e img dets)
     = AlertCall img dets # snd (send_telegram_alert_try e img dets)"
  by (simp add: send_telegram_alert_def split: prod.splits sum.splits)

lemma alert_flag_iff:
  "fst (send_telegram_alert e img dets) \<longleftrightarrow>
     error_rows dets \<noteq> [] \<and>
     (\<exists>buffer txt. cv2_imencode e img = Inr (True, buffer) \<and>
        requests_post e (sendPhoto_request e (message_loop message_header (error_rows dets)) buffer)
          = Inr (200, txt))"
  by (auto simp add: send_telegram_alert_def send_telegram_alert_try_def error_rows_def Let_def
      split: prod.splits sum.splits if_splits)

lemmas example_eval =
  example_env_def example_files_def example_detector_def example_imdecode_def
  multipart_decodes_def base64_decodes_def decode_base64_image_def b64decode_def
  table_a2b_base64_def b64_alphabet_def printing_def stringing_def str_lower_def char_lower_def

section \<open>Empty batches\<close>

text \<open>
  Claim C10. When the image of a request decodes and the detector returns an empty batch,
  \<open>POST /detect\<close> and \<open>POST /detect_base64\<close> both answer with HTTP 200 and the body
  \<open>detections_found = 0\<close>, \<open>detections = []\<close>, \<open>alert_sent = false\<close>, \<open>status = "normal"\<close>;
  the only call made is the one to the detector.
\<close>

theorem empty_batch_normal:
  assumes "model e = Some detector" and "detector img = Inr []"
  shows "(multipart_decodes e files img \<longrightarrow>
            detect_errors e files =
              ((DetectJson \<lparr>detections_found = 0, detections = [], alert_sent = False,
                             status = ''normal''\<rparr>, 200), [ModelCall img]))
       \<and> (base64_decodes e data img \<longrightarrow>
            detect_errors_base64 e (Inr data) =
              ((DetectJson \<lparr>detections_found = 0, detections = [], alert_sent = False,
                             status = ''normal''\<rparr>, 200), [ModelCall img]))"
  using assms
  by (simp add: detect_errors_decoded detect_errors_base64_decoded process_batch_def)

theorem empty_batch_normal_witness:
  "model example_env = Some example_detector \<and> example_detector (Image [0]) = Inr []
   \<and> multipart_decodes example_env (example_files [255, 0]) (Image [0])
   \<and> base64_decodes example_env (PDict [(''image'', PStr ''/wA='')]) (Image [0])
   \<and> detect_errors example_env (example_files [255, 0]) =
        ((DetectJson \<lparr>detections_found = 0, detections = [], alert_sent = False,
                       status = ''normal''\<rparr>, 200), [ModelCall (Image [0])])
   \<and> detect_errors_base64 example_env (Inr (PDict [(''image'', PStr ''/wA='')])) =
        ((DetectJson \<lparr>detections_found = 0, detections = [], alert_sent = False,
                       status = ''normal''\<rparr>, 200), [ModelCall (Image [0])])"
proof -
  have m: "model example_env = Some example_detector" by (simp add: example_env_def)
  have d: "example_detector (Image [0]) = Inr []" by (simp add: example_detector_def)
  have a: "multipart_decodes example_env (example_files [255, 0]) (Image [0])"
    by (simp add: example_eval)
  have b: "base64_decodes example_env (PDict [(''image'', PStr ''/wA='')]) (Image [0])"
    by (simp add: example_eval)
  show ?thesis
    using empty_batch_normal [OF m d, of "example_files [255, 0]" "PDict [(''image'', PStr ''/wA='')]"]
      m d a b by simp
qed

section \<open>Batches of sentinel detections only\<close>

text \<open>
  Claim C2. When the detector returns a non-empty batch in which every label lowers to
  the sentinel \<open>imprimiendo\<close>, \<open>POST /detect\<close> and \<open>POST /detect_base64\<close> both answer
  with \<open>status = "printing_normal"\<close> and \<open>alert_sent = false\<close>; the only call they make is
  the one to the detector, so the alert dispatcher is not called and nothing is posted.
\<close>

theorem sentinel_only_batch:
  assumes "model e = Some detector" and "detector img = Inr dets" and "dets \<noteq> []"
    and "\<forall>d\<in>set dets. str_lower (name d) = ''imprimiendo''"
  shows "(multipart_decodes e files img \<longrightarrow>
            detect_errors e files =
              ((DetectJson \<lparr>detections_found = length dets, detections = map row_json dets,
                             alert_sent = False, status = ''printing_normal''\<rparr>, 200),
               [ModelCall img]))
       \<and> (base64_decodes e data img \<longrightarrow>
            detect_errors_base64 e (Inr data) =
              ((DetectJson \<lparr>detections_found = length dets, detections = map row_json dets,
                             alert_sent = False, status = ''printing_normal''\<rparr>, 200),
               [ModelCall img]))"
proof -
  from assms(4) have "error_rows dets = []" by (simp add: error_rows_empty_iff)
  with assms(1-3) show ?thesis
    by (simp add: detect_errors_decoded detect_errors_base64_decoded process_batch_def)
qed

theorem sentinel_only_batch_witness:
  "model example_env = Some example_detector \<and> example_detector (Image [1]) = Inr [printing]
   \<and> [printing] \<noteq> [] \<and> str_lower (name printing) = ''imprimiendo''
   \<and> multipart_decodes example_env (example_files [255, 1]) (Image [1])
   \<and> base64_decodes example_env (PDict [(''image'', PStr ''/wE='')]) (Image [1])
   \<and> detect_errors example_env (example_files [255, 1]) =
        ((DetectJson \<lparr>detections_found = 1, detections = [row_json printing],
                       alert_sent = False, status = ''printing_normal''\<rparr>, 200),
         [ModelCall (Image [1])])
   \<and> detect_errors_base64 example_env (Inr (PDict [(''image'', PStr ''/wE='')])) =
        ((DetectJson \<lparr>detections_found = 1, detections = [row_json printing],
                       alert_sent = False, status = ''printing_normal''\<rparr>, 200),
         [ModelCall (Image [1])])"
proof -
  have m: "model example_env = Some example_detector" by (simp add: example_env_def)
  have d: "example_detector (Image [1]) = Inr [printing]" by (simp add: example_detector_def)
  have n: "[printing] \<noteq> []" by simp
  have s: "\<forall>d\<in>set [printing]. str_lower (name d) = ''imprimiendo''"
    by (simp add: printing_def str_lower_def char_lower_def)
  have a: "multipart_decodes example_env (example_files [255, 1]) (Image [1])"
    by (simp add: example_eval)
  have b: "base64_decodes example_env (PDict [(''image'', PStr ''/wE='')]) (Image [1])"
    by (simp add: example_eval)
  show ?thesis
    using sentinel_only_batch [OF m d n s, of "example_files [255, 1]"
        "PDict [(''image'', PStr ''/wE='')]"] m d s a b by simp
qed

section \<open>Batches with an error detection\<close>

text \<open>
  Claim C1 as stated: a batch with at least one label that is not the sentinel
  \<open>imprimiendo\<close> gets \<open>status = "error_detected"\<close> and an alert dispatch. The handlers
  compare the lowered label, so the label \<open>Imprimiendo\<close>, which is not the string
  \<open>imprimiendo\<close>, counts as the sentinel: both endpoints answer \<open>printing_normal\<close> and
  call the detector only.
\<close>

theorem capital_label_counterexample:
  "name (printing\<lparr>name := ''Imprimiendo''\<rparr>) \<noteq> ''imprimiendo''
   \<and> detect_errors
         (example_env\<lparr>model := Some capital_detector\<rparr>)
         (example_files [255, 1])
       = ((DetectJson \<lparr>detections_found = 1,
                        detections = [row_json (printing\<lparr>name := ''Imprimiendo''\<rparr>)],
                        alert_sent = False, status = ''printing_normal''\<rparr>, 200),
          [ModelCall (Image [1])])
   \<and> detect_errors_base64
         (example_env\<lparr>model := Some capital_detector\<rparr>)
         (Inr (PDict [(''image'', PStr ''/wE='')]))
       = ((DetectJson \<lparr>detections_found = 1,
                        detections = [row_json (printing\<lparr>name := ''Imprimiendo''\<rparr>)],
                        alert_sent = False, status = ''printing_normal''\<rparr>, 200),
          [ModelCall (Image [1])])
   \<and> ''printing_normal'' \<noteq> ''error_detected''"
  by (simp add: detect_errors_def detect_errors_try_def detect_errors_base64_def
      detect_errors_base64_try_def example_env_def example_files_def example_imdecode_def
      decode_base64_image_def b64decode_def table_a2b_base64_def b64_alphabet_def
      printing_def capital_detector_def str_lower_def char_lower_def)

text \<open>
  Claim C1, amended. When the detector returns a batch with at least one row whose label,
  lowered, is not \<open>imprimiendo\<close>, the answer \<open>r\<close> of either endpoint is HTTP 200 with
  \<open>status = "error_detected"\<close>; after the detector the handler calls the alert dispatcher
  on the rendered image and the whole batch, and \<open>alert_sent\<close> is the flag the dispatcher
  returns: true exactly when the image was encoded and the chat provider answered 200.
\<close>

theorem error_batch_alert:
  assumes "model e = Some detector" and "detector img = Inr dets"
    and "\<exists>d\<in>set dets. str_lower (name d) \<noteq> ''imprimiendo''"
    and "multipart_decodes e files img \<and> r = detect_errors e files
         \<or> base64_decodes e data img \<and> r = detect_errors_base64 e (Inr data)"
  shows "\<exists>rd evs. r = ((DetectJson rd, 200),
                        ModelCall img # AlertCall (render e img dets) dets # evs)
           \<and> status rd = ''error_detected''
           \<and> detections_found rd = length dets
           \<and> (alert_sent rd, AlertCall (render e img dets) dets # evs)
               = send_telegram_alert e (render e img dets) dets
           \<and> (alert_sent rd \<longleftrightarrow>
                (\<exists>buffer txt. cv2_imencode e (render e img dets) = Inr (True, buffer) \<and>
                   requests_post e
                     (sendPhoto_request e (message_loop message_header (error_rows dets)) buffer)
                   = Inr (200, txt)))"
proof -
  from assms(3) have ne: "error_rows dets \<noteq> []" "dets \<noteq> []"
    by (auto simp add: error_rows_empty_iff)
  from assms(1,2,4) have r: "r = process_batch e img dets"
    by (auto simp add: detect_errors_decoded detect_errors_base64_decoded)
  let ?a = "send_telegram_alert e (render e img dets) dets"
  have "fst ?a \<longleftrightarrow>
          (\<exists>buffer txt. cv2_imencode e (render e img dets) = Inr (True, buffer) \<and>
             requests_post e
               (sendPhoto_request e (message_loop message_header (error_rows dets)) buffer)
             = Inr (200, txt))"
    using ne by (simp add: alert_flag_iff)
  moreover have "?a = (fst ?a, AlertCall (render e img dets) dets
                         # snd (send_telegram_alert_try e (render e img dets) dets))"
    by (simp add: alert_events [symmetric])
  ultimately show ?thesis
    using ne r by (simp add: process_batch_def alert_events)
qed

theorem error_batch_alert_witness:
  "model example_env = Some example_detector
   \<and> example_detector (Image [2]) = Inr [printing, stringing]
   \<and> str_lower (name stringing) \<noteq> ''imprimiendo''
   \<and> multipart_decodes example_env (example_files [255, 2]) (Image [2])
   \<and> base64_decodes example_env (PDict [(''image'', PStr ''/wI='')]) (Image [2])
   \<and> (\<exists>rd evs. detect_errors example_env (example_files [255, 2])
                  = ((DetectJson rd, 200),
                     ModelCall (Image [2]) # AlertCall (Image [2]) [printing, stringing] # evs)
         \<and> status rd = ''error_detected'' \<and> alert_sent rd)
   \<and> (\<exists>rd evs. detect_errors_base64 example_env (Inr (PDict [(''image'', PStr ''/wI='')]))
                  = ((DetectJson rd, 200),
                     ModelCall (Image [2]) # AlertCall (Image [2]) [printing, stringing] # evs)
         \<and> status rd = ''error_detected'' \<and> alert_sent rd)"
proof -
  have m: "model example_env = Some example_detector" by (simp add: example_env_def)
  have d: "example_detector (Image [2]) = Inr [printing, stringing]"
    by (simp add: example_detector_def)
  have s: "\<exists>d\<in>set [printing, stringing]. str_lower (name d) \<noteq> ''imprimiendo''"
    by (simp add: stringing_def str_lower_def char_lower_def)
  have a: "multipart_decodes example_env (example_files [255, 2]) (Image [2])"
    by (simp add: example_eval)
  have b: "base64_decodes example_env (PDict [(''image'', PStr ''/wI='')]) (Image [2])"
    by (simp add: example_eval)
  have rn: "render example_env (Image [2]) [printing, stringing] = Image [2]"
    by (simp add: example_env_def)
  have en: "cv2_imencode example_env (Image [2]) = Inr (True, [2])"
    by (simp add: example_env_def)
  have po: "\<And>q. requests_post example_env q = Inr (200, ''ok'')"
    by (simp add: example_env_def)
  have 1: "\<exists>rd evs. detect_errors example_env (example_files [255, 2])
                  = ((DetectJson rd, 200),
                     ModelCall (Image [2]) # AlertCall (Image [2]) [printing, stringing] # evs)
         \<and> status rd = ''error_detected'' \<and> alert_sent rd"
    using error_batch_alert [OF m d s, where files = "example_files [255, 2]"
        and r = "detect_errors example_env (example_files [255, 2])"] a
    by (auto simp add: rn en po)
  have 2: "\<exists>rd evs. detect_errors_base64 example_env (Inr (PDict [(''image'', PStr ''/wI='')]))
                  = ((DetectJson rd, 200),
                     ModelCall (Image [2]) # AlertCall (Image [2]) [printing, stringing] # evs)
         \<and> status rd = ''error_detected'' \<and> alert_sent rd"
    using error_batch_alert [OF m d s, where data = "PDict [(''image'', PStr ''/wI='')]"
        and r = "detect_errors_base64 example_env (Inr (PDict [(''image'', PStr ''/wI='')]))"] b
    by (auto simp add: rn en po)
  have s': "str_lower (name stringing) \<noteq> ''imprimiendo''"
    by (simp add: stringing_def str_lower_def char_lower_def)
  show ?thesis using m d s' a b 1 2 by blast
qed

section \<open>The detector is not loaded\<close>

text \<open>
  Claim C3 as stated: with the model handle \<open>None\<close> every endpoint, the health check
  included, answers HTTP 500. The health check answers 200: it has no status code of its
  own and reports the missing model in its body.
\<close>

theorem health_check_counterexample:
  "model (example_env\<lparr>model := None\<rparr>) = None
   \<and> health_check (example_env\<lparr>model := None\<rparr>)
       = (HealthJson ''ERROR''
            (''Servidor de detecci'' @ o_acute @ ''n de errores en impresi'' @ o_acute @ ''n 3D'')
            False, 200)
   \<and> snd (health_check (example_env\<lparr>model := None\<rparr>)) \<noteq> 500"
  by (simp add: health_check_def)

text \<open>
  Claim C3, amended. With the model handle \<open>None\<close>, \<open>POST /detect\<close> and
  \<open>POST /detect_base64\<close> answer every request with HTTP 500 and the error
  \<open>Modelo no disponible\<close>, making no call; the health check answers HTTP 200 with
  \<open>status = "ERROR"\<close> and \<open>model_loaded = false\<close>.
\<close>

theorem model_unavailable:
  assumes "model e = None"
  shows "detect_errors e files = ((ErrorJson ''Modelo no disponible'', 500), [])
       \<and> detect_errors_base64 e req = ((ErrorJson ''Modelo no disponible'', 500), [])
       \<and> health_check e
           = (HealthJson ''ERROR''
                (''Servidor de detecci'' @ o_acute @ ''n de errores en impresi'' @ o_acute @ ''n 3D'')
                False, 200)"
  using assms
  by (simp add: detect_errors_def detect_errors_try_def detect_errors_base64_def
      detect_errors_base64_try_def health_check_def)

theorem model_unavailable_witness:
  "model (example_env\<lparr>model := None\<rparr>) = None
   \<and> detect_errors (example_env\<lparr>model := None\<rparr>) (example_files [255, 2])
       = ((ErrorJson ''Modelo no disponible'', 500), [])
   \<and> detect_errors_base64 (example_env\<lparr>model := None\<rparr>)
         (Inr (PDict [(''image'', PStr ''/wI='')]))
       = ((ErrorJson ''Modelo no disponible'', 500), [])
   \<and> snd (health_check (example_env\<lparr>model := None\<rparr>)) = 200"
proof -
  have m: "model (example_env\<lparr>model := None\<rparr>) = None" by simp
  show ?thesis
    using model_unavailable [OF m, of "example_files [255, 2]"
        "Inr (PDict [(''image'', PStr ''/wI='')])"] m by simp
qed

section \<open>The alert dispatcher does not raise\<close>

text \<open>
  Claim C6. \<open>send_telegram_alert\<close> returns a flag for every image and batch. The flag is
  false when encoding the image raises or reports failure, when the call to the provider
  raises, when the provider answers with a code other than 200, and whenever the body of
  the \<open>try\<close> block raises; it is true exactly when there is a row to report, the image
  was encoded and the provider answered 200. A failed dispatch leaves the handlers'
  answer in place: HTTP 200 with \<open>status = "error_detected"\<close> and \<open>alert_sent = false\<close>.
\<close>

theorem alert_never_raises:
  fixes e img dets
  defines "sent \<equiv> fst (send_telegram_alert e img dets)"
    and "message \<equiv> message_loop message_header (error_rows dets)"
  shows "(cv2_imencode e img = Inl ex \<longrightarrow> \<not> sent)
       \<and> (cv2_imencode e img = Inr (False, buffer) \<longrightarrow> \<not> sent)
       \<and> (cv2_imencode e img = Inr (True, buffer)
            \<and> requests_post e (sendPhoto_request e message buffer) = Inl ex \<longrightarrow> \<not> sent)
       \<and> (cv2_imencode e img = Inr (True, buffer)
            \<and> requests_post e (sendPhoto_request e message buffer) = Inr (code, reply)
            \<and> code \<noteq> 200 \<longrightarrow> \<not> sent)
       \<and> (sent \<longleftrightarrow> error_rows dets \<noteq> []
            \<and> (\<exists>buf t. cv2_imencode e img = Inr (True, buf)
                  \<and> requests_post e (sendPhoto_request e message buf) = Inr (200, t)))
       \<and> (fst (send_telegram_alert_try e img dets) = Inl ex \<longrightarrow> \<not> sent)
       \<and> (model e = Some detector \<and> detector img0 = Inr dets \<and> error_rows dets \<noteq> []
            \<and> img = render e img0 dets \<and> \<not> sent \<longrightarrow>
            (multipart_decodes e files img0 \<longrightarrow>
               fst (detect_errors e files)
                 = (DetectJson \<lparr>detections_found = length dets, detections = map row_json dets,
                                 alert_sent = False, status = ''error_detected''\<rparr>, 200))
            \<and> (base64_decodes e data img0 \<longrightarrow>
               fst (detect_errors_base64 e (Inr data))
                 = (DetectJson \<lparr>detections_found = length dets, detections = map row_json dets,
                                 alert_sent = False, status = ''error_detected''\<rparr>, 200)))"
proof -
  have 1: "cv2_imencode e img = Inl ex \<longrightarrow> \<not> sent"
    by (auto simp add: sent_def alert_flag_iff)
  have 2: "cv2_imencode e img = Inr (False, buffer) \<longrightarrow> \<not> sent"
    by (auto simp add: sent_def alert_flag_iff)
  have 3: "cv2_imencode e img = Inr (True, buffer)
            \<and> requests_post e (sendPhoto_request e message buffer) = Inl ex \<longrightarrow> \<not> sent"
    by (auto simp add: sent_def message_def alert_flag_iff)
  have 4: "cv2_imencode e img = Inr (True, buffer)
            \<and> requests_post e (sendPhoto_request e message buffer) = Inr (code, reply)
            \<and> code \<noteq> 200 \<longrightarrow> \<not> sent"
    by (auto simp add: sent_def message_def alert_flag_iff)
  have 5: "sent \<longleftrightarrow> error_rows dets \<noteq> []
            \<and> (\<exists>buf t. cv2_imencode e img = Inr (True, buf)
                  \<and> requests_post e (sendPhoto_request e message buf) = Inr (200, t))"
    by (simp add: sent_def message_def alert_flag_iff)
  have 6: "fst (send_telegram_alert_try e img dets) = Inl ex \<longrightarrow> \<not> sent"
    by (simp add: sent_def send_telegram_alert_def split: prod.splits)
  have 7: "model e = Some detector \<and> detector img0 = Inr dets \<and> error_rows dets \<noteq> []
            \<and> img = render e img0 dets \<and> \<not> sent \<longrightarrow>
            (multipart_decodes e files img0 \<longrightarrow>
               fst (detect_errors e files)
                 = (DetectJson \<lparr>detections_found = length dets, detections = map row_json dets,
                                 alert_sent = False, status = ''error_detected''\<rparr>, 200))
            \<and> (base64_decodes e data img0 \<longrightarrow>
               fst (detect_errors_base64 e (Inr data))
                 = (DetectJson \<lparr>detections_found = length dets, detections = map row_json dets,
                                 alert_sent = False, status = ''error_detected''\<rparr>, 200))"
    by (auto simp add: sent_def detect_errors_decoded detect_errors_base64_decoded
        process_batch_def error_rows_def)
  from 1 2 3 4 5 6 7 show ?thesis by blast
qed

theorem alert_never_raises_witness:
  "\<not> fst (send_telegram_alert (example_env\<lparr>cv2_imencode := \<lambda>i. Inl (Exn ''encode'')\<rparr>)
            (Image [2]) [printing, stringing])
   \<and> \<not> fst (send_telegram_alert (example_env\<lparr>cv2_imencode := \<lambda>i. Inr (False, [])\<rparr>)
            (Image [2]) [printing, stringing])
   \<and> \<not> fst (send_telegram_alert (example_env\<lparr>requests_post := \<lambda>q. Inl (Exn ''timeout'')\<rparr>)
            (Image [2]) [printing, stringing])
   \<and> \<not> fst (send_telegram_alert (example_env\<lparr>requests_post := \<lambda>q. Inr (500, ''error'')\<rparr>)
            (Image [2]) [printing, stringing])
   \<and> fst (send_telegram_alert example_env (Image [2]) [printing, stringing])
   \<and> fst (detect_errors (example_env\<lparr>requests_post := \<lambda>q. Inl (Exn ''timeout'')\<rparr>)
            (example_files [255, 2]))
       = (DetectJson \<lparr>detections_found = 2, detections = map row_json [printing, stringing],
                       alert_sent = False, status = ''error_detected''\<rparr>, 200)"
proof -
  let ?ds = "[printing, stringing]"
  let ?e3 = "example_env\<lparr>requests_post := \<lambda>q. Inl (Exn ''timeout'')\<rparr>"
  have ne: "error_rows ?ds \<noteq> []"
    by (simp add: error_rows_def printing_def stringing_def str_lower_def char_lower_def)
  have 1: "\<not> fst (send_telegram_alert (example_env\<lparr>cv2_imencode := \<lambda>i. Inl (Exn ''encode'')\<rparr>)
            (Image [2]) ?ds)"
    using alert_never_raises [where e = "example_env\<lparr>cv2_imencode := \<lambda>i. Inl (Exn ''encode'')\<rparr>"
        and img = "Image [2]" and dets = "?ds" and ex = "Exn ''encode''"]
    by simp
  have 2: "\<not> fst (send_telegram_alert (example_env\<lparr>cv2_imencode := \<lambda>i. Inr (False, [])\<rparr>)
            (Image [2]) ?ds)"
    using alert_never_raises [where e = "example_env\<lparr>cv2_imencode := \<lambda>i. Inr (False, [])\<rparr>"
        and img = "Image [2]" and dets = "?ds" and buffer = "[]"]
    by simp
  have 3: "\<not> fst (send_telegram_alert ?e3 (Image [2]) ?ds)"
    using alert_never_raises [where e = "?e3"
        and img = "Image [2]" and dets = "?ds" and buffer = "[2]" and ex = "Exn ''timeout''"]
    by (simp add: example_env_def)
  have 4: "\<not> fst (send_telegram_alert (example_env\<lparr>requests_post := \<lambda>q. Inr (500, ''error'')\<rparr>)
            (Image [2]) ?ds)"
    using alert_never_raises [where e = "example_env\<lparr>requests_post := \<lambda>q. Inr (500, ''error'')\<rparr>"
        and img = "Image [2]" and dets = "?ds" and buffer = "[2]" and code = 500 and reply = "''error''"]
    by (simp add: example_env_def)
  have 5: "fst (send_telegram_alert example_env (Image [2]) ?ds)"
    using alert_never_raises [where e = example_env and img = "Image [2]" and dets = "?ds"] ne
    by (simp add: example_env_def)
  have 6: "fst (detect_errors ?e3 (example_files [255, 2]))
       = (DetectJson \<lparr>detections_found = 2, detections = map row_json ?ds,
                       alert_sent = False, status = ''error_detected''\<rparr>, 200)"
    using alert_never_raises [where e = "?e3" and img = "Image [2]" and dets = "?ds"
        and detector = example_detector and ?img0.0 = "Image [2]"
        and files = "example_files [255, 2]"] ne 3
    by (simp add: example_eval)
  from 1 2 3 4 5 6 show ?thesis by blast
qed

section \<open>The client and its missing imports\<close>

text \<open>
  Claim C9 says that a pass of the client's loop whose multipart upload fails makes one
  upload to \<open>/detect_base64\<close> and that the loop goes on. The module never binds
  \<open>requests\<close>, \<open>cv2\<close> and \<open>time\<close>, and so, whatever the camera, the server and the timer
  do: \<open>main\<close> raises \<open>NameError\<close> while it builds the client, before the health probe and
  before any pass; \<open>send_image_to_server\<close> does not return \<open>None\<close> but raises \<open>NameError\<close>
  without an upload, so the fallback branch of the loop is not taken; and a pass of the
  loop captures a frame at most, makes no upload, and ends the loop.
\<close>

theorem client_unbound_names:
  "main st ios = (Raises (NameError ''requests''), [])
   \<and> send_image_to_server io img = (Raises (NameError ''requests''), [])
   \<and> cycle io =
       (if io_capture_array io = Raises KeyboardInterrupt then (Break, [Capture])
        else (Propagate (NameError ''time''), [Capture]))"
proof -
  have 1: "main st ios = (Raises (NameError ''requests''), [])"
    by (simp add: main_def CameraClient_init_def global_call_def module_globals_def)
  have 2: "send_image_to_server io img = (Raises (NameError ''requests''), [])"
    by (simp add: send_image_to_server_def send_image_to_server_try_def global_call_def
        module_globals_def)
  have c: "capture_image io =
             (if io_capture_array io = Raises KeyboardInterrupt then Raises KeyboardInterrupt
              else Returns None)"
    by (simp add: capture_image_def USE_PI_CAMERA_def global_call_def module_globals_def
        split: outcome.splits)
  have 3: "cycle io =
       (if io_capture_array io = Raises KeyboardInterrupt then (Break, [Capture])
        else (Propagate (NameError ''time''), [Capture]))"
    by (simp add: cycle_def cycle_try_def c global_call_def global_events_def
        module_globals_def)
  from 1 2 3 show ?thesis by blast
qed

section \<open>The sentinel test ignores case\<close>

lemma char_lower_cases:
  "char_lower c = CHR ''i'' \<longleftrightarrow> c = CHR ''i'' \<or> c = CHR ''I''"
  "char_lower c = CHR ''m'' \<longleftrightarrow> c = CHR ''m'' \<or> c = CHR ''M''"
  "char_lower c = CHR ''p'' \<longleftrightarrow> c = CHR ''p'' \<or> c = CHR ''P''"
  "char_lower c = CHR ''r'' \<longleftrightarrow> c = CHR ''r'' \<or> c = CHR ''R''"
  "char_lower c = CHR ''e'' \<longleftrightarrow> c = CHR ''e'' \<or> c = CHR ''E''"
  "char_lower c = CHR ''n'' \<longleftrightarrow> c = CHR ''n'' \<or> c = CHR ''N''"
  "char_lower c = CHR ''d'' \<longleftrightarrow> c = CHR ''d'' \<or> c = CHR ''D''"
  "char_lower c = CHR ''o'' \<longleftrightarrow> c = CHR ''o'' \<or> c = CHR ''O''"
  by (auto simp add: char_lower_def split: if_splits)

lemma sentinel_ignoring_case_iff:
  "sentinel_ignoring_case s \<longleftrightarrow> str_lower s = ''imprimiendo''"
  by (auto simp add: sentinel_ignoring_case_def str_lower_def list_all2_Cons2 map_eq_Cons_conv
      char_lower_cases)

section \<open>Numbers in the caption\<close>

lemma show_nat_digit: "n < 10 \<Longrightarrow> show_nat n = [digit_char n]"
  by (simp add: show_nat.simps)

lemma show_nat_more: "10 \<le> n \<Longrightarrow> show_nat n = show_nat (n div 10) @ [digit_char (n mod 10)]"
  by (subst show_nat.simps) simp

lemma digit_value_digit_char: "d < 10 \<Longrightarrow> digit_value (digit_char d) = d"
proof -
  assume "d < 10"
  then have "d \<in> {0, 1, 2, 3, 4, 5, 6, 7, 8, 9}" by auto
  then show ?thesis
    by (auto simp add: digit_value_def digit_char_def)
qed

lemma read_nat_show_nat: "read_nat (show_nat n) = n"
proof (induction n rule: show_nat.induct)
  case (1 n)
  show ?case
  proof (cases "n < 10")
    case True
    then show ?thesis by (simp add: show_nat_digit read_nat_def digit_value_digit_char)
  next
    case False
    with 1 have "read_nat (show_nat (n div 10)) = n div 10" by simp
    with False show ?thesis
      by (simp add: show_nat_more read_nat_def digit_value_digit_char)
  qed
qed

lemma length_show_nat_small: "n < 100 \<Longrightarrow> zfill 2 (show_nat n) = [digit_char (n div 10), digit_char (n mod 10)]"
proof (cases "n < 10")
  case True
  then show ?thesis by (simp add: show_nat_digit zfill_def digit_char_def)
next
  case False
  assume "n < 100"
  with False have "n div 10 < 10" by simp
  with False show ?thesis by (simp add: show_nat_more show_nat_digit zfill_def)
qed

lemma round_half_even_near: "\<bar>real_of_int (round_half_even x) - x\<bar> \<le> 1 / 2"
  unfolding round_half_even_def Let_def by (auto; linarith)

lemma round_half_even_nonneg: "0 \<le> x \<Longrightarrow> 0 \<le> round_half_even x"
  unfolding round_half_even_def Let_def by (auto; linarith)

lemma two_digits:
  "zfill 2 (show_nat (m mod 100)) = [digit_char (m div 10 mod 10), digit_char (m mod 10)]"
proof -
  have e: "m mod 100 = 10 * (m div 10 mod 10) + m mod 10"
    using mod_mult2_eq [of m 10 10] by simp
  have d: "m mod 100 div 10 = m div 10 mod 10"
    by (subst e) simp
  have r: "m mod 100 mod 10 = m mod 10"
    by (subst e) simp
  have "m mod 100 < 100" by simp
  then have "zfill 2 (show_nat (m mod 100))
               = [digit_char (m mod 100 div 10), digit_char (m mod 100 mod 10)]"
    by (rule length_show_nat_small)
  then show ?thesis by (simp only: d r)
qed

lemma format_f_2: "format_f 2 x = two_decimals x"
  by (simp add: format_f_def two_decimals_def Let_def two_digits)

lemma format_f_0: "format_f 0 x = rounded_integer x"
  by (simp add: format_f_def rounded_integer_def)

lemma message_loop_eq: "message_loop message rows = message @ concat (map caption_entry rows)"
  by (induction rows arbitrary: message)
    (simp_all add: caption_entry_def format_f_2 format_f_0)

lemma post_events:
  "PostCall q \<in> set (snd (send_telegram_alert e img dets)) \<longleftrightarrow>
     error_rows dets \<noteq> [] \<and>
     (\<exists>buffer. cv2_imencode e img = Inr (True, buffer) \<and>
        q = sendPhoto_request e (message_loop message_header (error_rows dets)) buffer)"
  by (auto simp add: alert_events send_telegram_alert_try_def error_rows_def Let_def
      split: sum.splits prod.splits if_splits)

text \<open>
  Claim C8 as stated: the caption lists exactly the detections that are not the sentinel.
  The dispatcher filters on the lowered label, so in a batch with the labels
  \<open>Imprimiendo\<close> and \<open>stringing\<close> the first, which is not the string \<open>imprimiendo\<close>, is
  left out of the caption: the caption posted has the entry of \<open>stringing\<close> only.
\<close>

theorem caption_capital_label_counterexample:
  "name (printing\<lparr>name := ''Imprimiendo''\<rparr>) \<noteq> ''imprimiendo''
   \<and> snd (send_telegram_alert example_env (Image [2])
            [printing\<lparr>name := ''Imprimiendo''\<rparr>, stringing])
       = [AlertCall (Image [2]) [printing\<lparr>name := ''Imprimiendo''\<rparr>, stringing],
          PostCall (sendPhoto_request example_env
                      (message_header @ blue_diamond @ '' *stringing*'' @ nl
                       @ ''Confianza: 0.77'' @ nl
                       @ ''Posici'' @ o_acute @ ''n: x1=10, y1=20, x2=110, y2=220'' @ nl @ nl)
                      [2])]"
proof -
  have c: "caption_entry stringing
             = blue_diamond @ '' *stringing*'' @ nl @ ''Confianza: 0.77'' @ nl
               @ ''Posici'' @ o_acute @ ''n: x1=10, y1=20, x2=110, y2=220'' @ nl @ nl"
    by (simp add: caption_entry_def stringing_def two_decimals_def rounded_integer_def
        round_half_even_def show_nat_digit show_nat_more digit_char_def Let_def)
  have f: "filter (\<lambda>d. str_lower (name d) \<noteq> ''imprimiendo'')
             [printing\<lparr>name := ''Imprimiendo''\<rparr>, stringing] = [stringing]"
    by (simp add: printing_def stringing_def str_lower_def char_lower_def)
  have n: "name (printing\<lparr>name := ''Imprimiendo''\<rparr>) \<noteq> ''imprimiendo''" by simp
  have a: "snd (send_telegram_alert example_env (Image [2])
            [printing\<lparr>name := ''Imprimiendo''\<rparr>, stringing])
       = [AlertCall (Image [2]) [printing\<lparr>name := ''Imprimiendo''\<rparr>, stringing],
          PostCall (sendPhoto_request example_env
                      (message_header @ blue_diamond @ '' *stringing*'' @ nl
                       @ ''Confianza: 0.77'' @ nl
                       @ ''Posici'' @ o_acute @ ''n: x1=10, y1=20, x2=110, y2=220'' @ nl @ nl)
                      [2])]"
    unfolding alert_events send_telegram_alert_try_def f
    by (simp add: message_loop_eq c example_env_def)
  from n a show ?thesis by blast
qed

text \<open>
  Claim C8, amended. The caption of the alert that \<open>send_telegram_alert\<close> posts is the
  header followed by one entry for each detection of the batch whose lowered label is not
  \<open>imprimiendo\<close>, in the batch's order, and for no other; with such a detection and an
  encoded image the post is made with that caption. An entry gives the label, the
  confidence in the format \<open>:.2f\<close>, which is the value rounded to two decimals (within
  half a hundredth), and the four coordinates in the format \<open>:.0f\<close>, which is the value
  rounded to an integer (within one half), written as the decimal numeral of that integer.
\<close>

theorem caption_lists_error_rows:
  "(PostCall q \<in> set (snd (send_telegram_alert e img dets)) \<longrightarrow>
      caption q = message_header @ concat (map caption_entry (error_rows dets)))
   \<and> (error_rows dets \<noteq> [] \<and> cv2_imencode e img = Inr (True, buffer) \<longrightarrow>
        PostCall (sendPhoto_request e
                    (message_header @ concat (map caption_entry (error_rows dets))) buffer)
          \<in> set (snd (send_telegram_alert e img dets)))
   \<and> set (error_rows dets) = {d \<in> set dets. str_lower (name d) \<noteq> ''imprimiendo''}
   \<and> format_f 2 x = two_decimals x \<and> format_f 0 x = rounded_integer x
   \<and> read_nat (show_nat n) = n
   \<and> \<bar>real (nat (round_half_even (\<bar>x\<bar> * 100))) / 100 - \<bar>x\<bar>\<bar> \<le> 1 / 200
   \<and> \<bar>real (nat (round_half_even \<bar>x\<bar>)) - \<bar>x\<bar>\<bar> \<le> 1 / 2"
proof -
  have 1: "PostCall q \<in> set (snd (send_telegram_alert e img dets)) \<longrightarrow>
      caption q = message_header @ concat (map caption_entry (error_rows dets))"
    by (auto simp add: post_events message_loop_eq sendPhoto_request_def)
  have 2: "error_rows dets \<noteq> [] \<and> cv2_imencode e img = Inr (True, buffer) \<longrightarrow>
        PostCall (sendPhoto_request e
                    (message_header @ concat (map caption_entry (error_rows dets))) buffer)
          \<in> set (snd (send_telegram_alert e img dets))"
    by (simp add: post_events message_loop_eq)
  have 3: "set (error_rows dets) = {d \<in> set dets. str_lower (name d) \<noteq> ''imprimiendo''}"
    by (simp add: error_rows_def)
  have nn: "\<And>y::real. 0 \<le> y \<Longrightarrow> real (nat (round_half_even y)) = real_of_int (round_half_even y)"
    using round_half_even_nonneg by simp
  have 4: "\<bar>real (nat (round_half_even (\<bar>x\<bar> * 100))) / 100 - \<bar>x\<bar>\<bar> \<le> 1 / 200"
  proof -
    have "\<bar>real_of_int (round_half_even (\<bar>x\<bar> * 100)) - \<bar>x\<bar> * 100\<bar> \<le> 1 / 2"
      by (rule round_half_even_near)
    moreover have "real (nat (round_half_even (\<bar>x\<bar> * 100)))
                     = real_of_int (round_half_even (\<bar>x\<bar> * 100))"
      by (rule nn) simp
    ultimately show ?thesis by (simp add: abs_le_iff field_simps)
  qed
  have 5: "\<bar>real (nat (round_half_even \<bar>x\<bar>)) - \<bar>x\<bar>\<bar> \<le> 1 / 2"
    using round_half_even_near [of "\<bar>x\<bar>"] nn [of "\<bar>x\<bar>"] by simp
  from 1 2 3 4 5 show ?thesis
    by (simp only: format_f_2 format_f_0 read_nat_show_nat simp_thms)
qed

theorem caption_lists_error_rows_witness:
  "error_rows [printing, stringing] \<noteq> []
   \<and> cv2_imencode example_env (Image [2]) = Inr (True, [2])
   \<and> PostCall (sendPhoto_request example_env
                  (message_header @ blue_diamond @ '' *stringing*'' @ nl
                   @ ''Confianza: 0.77'' @ nl
                   @ ''Posici'' @ o_acute @ ''n: x1=10, y1=20, x2=110, y2=220'' @ nl @ nl)
                  [2])
        \<in> set (snd (send_telegram_alert example_env (Image [2]) [printing, stringing]))"
proof -
  have r: "error_rows [printing, stringing] = [stringing]"
    by (simp add: error_rows_def printing_def stringing_def str_lower_def char_lower_def)
  have en: "cv2_imencode example_env (Image [2]) = Inr (True, [2])"
    by (simp add: example_env_def)
  have c: "caption_entry stringing
             = blue_diamond @ '' *stringing*'' @ nl @ ''Confianza: 0.77'' @ nl
               @ ''Posici'' @ o_acute @ ''n: x1=10, y1=20, x2=110, y2=220'' @ nl @ nl"
    by (simp add: caption_entry_def stringing_def two_decimals_def rounded_integer_def
        round_half_even_def show_nat_digit show_nat_more digit_char_def Let_def)
  show ?thesis
    using caption_lists_error_rows [where e = example_env and img = "Image [2]"
        and dets = "[printing, stringing]" and buffer = "[2]"] en
    by (simp add: r c)
qed

text \<open>
  Claim C7. For a decoded request and any batch the detector returns, either endpoint
  answers \<open>status = "error_detected"\<close> exactly when some label is not the sentinel up to
  letter case, calls the alert dispatcher exactly then, and a caption it posts lists the
  rows whose label is not the sentinel up to letter case. A label is the sentinel up to
  letter case exactly when its lowered form equals \<open>imprimiendo\<close>; \<open>Imprimiendo\<close> and
  \<open>IMPRIMIENDO\<close> are such labels.
\<close>

theorem sentinel_case_insensitive:
  assumes "model e = Some detector" and "detector img = Inr dets"
    and "multipart_decodes e files img \<and> r = detect_errors e files
         \<or> base64_decodes e data img \<and> r = detect_errors_base64 e (Inr data)"
  shows "(\<exists>rd. fst r = (DetectJson rd, 200)
            \<and> (status rd = ''error_detected''
                 \<longleftrightarrow> (\<exists>d\<in>set dets. \<not> sentinel_ignoring_case (name d))))
       \<and> ((\<exists>a ds. AlertCall a ds \<in> set (snd r))
            \<longleftrightarrow> (\<exists>d\<in>set dets. \<not> sentinel_ignoring_case (name d)))
       \<and> (\<forall>q. PostCall q \<in> set (snd r) \<longrightarrow>
              caption q = message_loop message_header
                            [d\<leftarrow>dets. \<not> sentinel_ignoring_case (name d)])
       \<and> (sentinel_ignoring_case s \<longleftrightarrow> str_lower s = ''imprimiendo'')
       \<and> sentinel_ignoring_case ''Imprimiendo'' \<and> sentinel_ignoring_case ''IMPRIMIENDO''"
proof -
  from assms have r: "r = process_batch e img dets"
    by (auto simp add: detect_errors_decoded detect_errors_base64_decoded)
  have f: "[d\<leftarrow>dets. \<not> sentinel_ignoring_case (name d)] = error_rows dets"
    by (simp add: error_rows_def sentinel_ignoring_case_iff)
  have x: "(\<exists>d\<in>set dets. \<not> sentinel_ignoring_case (name d)) \<longleftrightarrow> error_rows dets \<noteq> []"
    by (simp add: error_rows_empty_iff sentinel_ignoring_case_iff)
  have n: "dets = [] \<Longrightarrow> error_rows dets = []" by (simp add: error_rows_def)
  have 1: "\<exists>rd. fst r = (DetectJson rd, 200)
            \<and> (status rd = ''error_detected'' \<longleftrightarrow> error_rows dets \<noteq> [])"
    using n by (auto simp add: r process_batch_def)
  have 2: "(\<exists>a ds. AlertCall a ds \<in> set (snd r)) \<longleftrightarrow> error_rows dets \<noteq> []"
    using n by (auto simp add: r process_batch_def alert_events)
  have 3: "\<forall>q. PostCall q \<in> set (snd r) \<longrightarrow>
              caption q = message_loop message_header (error_rows dets)"
    using n by (auto simp add: r process_batch_def post_events sendPhoto_request_def)
  have 4: "sentinel_ignoring_case ''Imprimiendo''" "sentinel_ignoring_case ''IMPRIMIENDO''"
    by (simp_all add: sentinel_ignoring_case_def)
  from 1 2 3 4 show ?thesis
    by (simp only: f x sentinel_ignoring_case_iff [symmetric] simp_thms)
qed

theorem sentinel_case_insensitive_witness:
  "model (example_env\<lparr>model := Some (\<lambda>img. Inr [printing\<lparr>name := ''Imprimiendo''\<rparr>,
                                                  printing\<lparr>name := ''IMPRIMIENDO''\<rparr>])\<rparr>)
     = Some (\<lambda>img. Inr [printing\<lparr>name := ''Imprimiendo''\<rparr>, printing\<lparr>name := ''IMPRIMIENDO''\<rparr>])
   \<and> multipart_decodes
         (example_env\<lparr>model := Some (\<lambda>img. Inr [printing\<lparr>name := ''Imprimiendo''\<rparr>,
                                                  printing\<lparr>name := ''IMPRIMIENDO''\<rparr>])\<rparr>)
         (example_files [255, 1]) (Image [1])
   \<and> base64_decodes
         (example_env\<lparr>model := Some (\<lambda>img. Inr [printing\<lparr>name := ''Imprimiendo''\<rparr>,
                                                  printing\<lparr>name := ''IMPRIMIENDO''\<rparr>])\<rparr>)
         (PDict [(''image'', PStr ''/wE='')]) (Image [1])
   \<and> (\<exists>rd. fst (detect_errors
                    (example_env\<lparr>model := Some (\<lambda>img. Inr [printing\<lparr>name := ''Imprimiendo''\<rparr>,
                                                  printing\<lparr>name := ''IMPRIMIENDO''\<rparr>])\<rparr>)
                    (example_files [255, 1])) = (DetectJson rd, 200)
            \<and> status rd \<noteq> ''error_detected'')
   \<and> (\<exists>rd. fst (detect_errors_base64
                    (example_env\<lparr>model := Some (\<lambda>img. Inr [printing\<lparr>name := ''Imprimiendo''\<rparr>,
                                                  printing\<lparr>name := ''IMPRIMIENDO''\<rparr>])\<rparr>)
                    (Inr (PDict [(''image'', PStr ''/wE='')]))) = (DetectJson rd, 200)
            \<and> status rd \<noteq> ''error_detected'')"
proof -
  let ?ds = "[printing\<lparr>name := ''Imprimiendo''\<rparr>, printing\<lparr>name := ''IMPRIMIENDO''\<rparr>]"
  let ?e = "example_env\<lparr>model := Some (\<lambda>img. Inr ?ds)\<rparr>"
  have m: "model ?e = Some (\<lambda>img. Inr ?ds)" by simp
  have d: "(\<lambda>img. Inr ?ds) (Image [1]) = Inr ?ds" by simp
  have a: "multipart_decodes ?e (example_files [255, 1]) (Image [1])"
    by (simp add: example_eval)
  have b: "base64_decodes ?e (PDict [(''image'', PStr ''/wE='')]) (Image [1])"
    by (simp add: example_eval)
  have s: "\<not> (\<exists>d\<in>set ?ds. \<not> sentinel_ignoring_case (name d))"
    by (simp add: sentinel_ignoring_case_def)
  have 1: "\<exists>rd. fst (detect_errors ?e (example_files [255, 1])) = (DetectJson rd, 200)
            \<and> status rd \<noteq> ''error_detected''"
    using sentinel_case_insensitive [OF m d, where files = "example_files [255, 1]"
        and r = "detect_errors ?e (example_files [255, 1])"] a s
    by blast
  have 2: "\<exists>rd. fst (detect_errors_base64 ?e (Inr (PDict [(''image'', PStr ''/wE='')])))
                  = (DetectJson rd, 200)
            \<and> status rd \<noteq> ''error_detected''"
    using sentinel_case_insensitive [OF m d, where data = "PDict [(''image'', PStr ''/wE='')]"
        and r = "detect_errors_base64 ?e (Inr (PDict [(''image'', PStr ''/wE='')]))"] b s
    by blast
  from m a b 1 2 show ?thesis by blast
qed

section \<open>Requests without a decodable image\<close>

text \<open>
  A request from which no image is decoded never reaches the detector, and is answered
  with 400 or with 500.
\<close>

lemma multipart_no_image_no_detector:
  assumes "\<forall>img. \<not> multipart_decodes e files img"
  shows "snd (detect_errors e files) = []
         \<and> (snd (fst (detect_errors e files)) = 400 \<or> snd (fst (detect_errors e files)) = 500)"
  using assms
  by (auto simp add: detect_errors_def detect_errors_try_def multipart_decodes_def
      split: option.splits sum.splits exn.splits)

lemma base64_no_image_no_detector:
  assumes "\<forall>img. \<not> base64_decodes e data img"
  shows "snd (detect_errors_base64 e (Inr data)) = []
         \<and> (snd (fst (detect_errors_base64 e (Inr data))) = 400
              \<or> snd (fst (detect_errors_base64 e (Inr data))) = 500)"
  using assms
  by (auto simp add: detect_errors_base64_def detect_errors_base64_try_def base64_decodes_def
      split: option.splits sum.splits exn.splits bool.splits)

text \<open>
  Claim C5 says that a request whose image is missing or undecodable is answered with
  HTTP 400 on both endpoints, without a call to the detector. \<open>POST /detect_base64\<close> with
  the JSON body \<open>5\<close> carries no image; \<open>not data\<close> is false for it and the test
  \<open>'image' not in data\<close> raises \<open>TypeError\<close> outside the inner \<open>try\<close>, so the handler's
  \<open>except Exception\<close> clause answers 500. The detector is not called.
\<close>

theorem scalar_json_body_500:
  "truthy (PNum 5)
   \<and> detect_errors_base64 example_env (Inr (PNum 5))
       = ((ErrorJson ''Error interno del servidor: argument of type 'int' is not iterable'', 500),
          [])"
  by (simp add: detect_errors_base64_def detect_errors_base64_try_def example_env_def)

section \<open>Decoding base64 inverts encoding\<close>


















section \<open>The two transports agree\<close>








end
